theory Spec2Isabelle
  imports Main "HOL-Library.Word" "HOL-Library.Signed_Division" "HOL-Library.AList"
begin

section \<open>Machine integers and failures\<close>

text \<open>
  Sample values are \<open>int64_t\<close>, signal readings \<open>int32_t\<close>: words, so that addition
  wraps. Comparisons of the source are signed (\<open><s\<close>). A quotient of two \<open>int64_t\<close>
  truncates towards zero (\<open>sdiv64\<close>); a quotient of an \<open>int64_t\<close> by a \<open>size_t\<close> is
  taken after the usual arithmetic conversion to the unsigned type, which is \<open>div\<close> on
  words. \<open>time_t\<close> is a signed count of seconds, modelled as an integer; \<open>%\<close> and \<open>/\<close>
  on it truncate (\<open>smod\<close>, \<open>sdiv\<close>).
\<close>

type_synonym int64_t = "64 word"
type_synonym int32_t = "32 word"
type_synonym uint64_t = "64 word"
type_synonym time_t = int

definition sdiv64 :: "int64_t \<Rightarrow> int64_t \<Rightarrow> int64_t" where
  "sdiv64 a b = word_of_int (sint a sdiv sint b)"

text \<open>
  What a call can end in besides its result: the \<open>std::runtime_error\<close> of
  \<open>except_type_mismatch\<close>, the \<open>std::runtime_error\<close> a range or ownership check throws,
  an integer division by zero, an unchecked access outside a vector, and the use of a
  pointer to an element that has been destroyed.
\<close>

datatype error =
  TypeMismatch | OwnershipViolation | DivisionByZero | OutOfBoundsAccess | InvalidPointer

definition bind :: "error + 'a \<Rightarrow> ('a \<Rightarrow> error + 'b) \<Rightarrow> error + 'b" where
  "bind m f = (case m of Inl e \<Rightarrow> Inl e | Inr x \<Rightarrow> f x)"

section \<open>Aggregation policies\<close>

text \<open>The three aggregator classes of devicetracker_component.h; a slot vector is the
  list of the \<open>int64_t\<close> values of its elements.\<close>

datatype aggregator =
    kis_tracked_rrd_default_aggregator
  | kis_tracked_rrd_peak_signal_aggregator
  | kis_tracked_rrd_extreme_aggregator

definition default_val :: "aggregator \<Rightarrow> int64_t" where
  "default_val agg = 0"

definition default_combine_element :: "int64_t \<Rightarrow> int64_t \<Rightarrow> int64_t" where
  "default_combine_element a b = a + b"

definition peak_signal_combine_element :: "int64_t \<Rightarrow> int64_t \<Rightarrow> int64_t" where
  "peak_signal_combine_element a b = (if a <s b then b else a)"

definition extreme_combine_element :: "int64_t \<Rightarrow> int64_t \<Rightarrow> int64_t" where
  "extreme_combine_element a b =
     (if a <s 0 \<and> b <s 0 then (if a <s b then a else b)
      else if 0 <s a \<and> 0 <s b then (if b <s a then a else b)
      else if a = 0 then b
      else if b = 0 then a
      else if a <s b then a
      else b)"

definition combine_element :: "aggregator \<Rightarrow> int64_t \<Rightarrow> int64_t \<Rightarrow> int64_t" where
  "combine_element agg a b =
     (case agg of
        kis_tracked_rrd_default_aggregator \<Rightarrow> default_combine_element a b
      | kis_tracked_rrd_peak_signal_aggregator \<Rightarrow> peak_signal_combine_element a b
      | kis_tracked_rrd_extreme_aggregator \<Rightarrow> extreme_combine_element a b)"

text \<open>The accumulation loop \<open>avg += value\<close> over the vector.\<close>

fun sum_loop :: "int64_t list \<Rightarrow> int64_t \<Rightarrow> int64_t" where
  "sum_loop [] avg = avg"
| "sum_loop (x # xs) avg = sum_loop xs (avg + x)"

text \<open>\<open>avg / v.size()\<close>: the divisor is the number of slots, with no test for zero.
  \<open>TrackerElementVector\<close> is declared in trackedelement.h, outside src/; its \<open>size()\<close>
  is taken to return \<open>size_t\<close>, as \<open>TrackerElement::size()\<close> does, so the quotient is
  the unsigned one.\<close>

definition default_combine_vector :: "int64_t list \<Rightarrow> error + int64_t" where
  "default_combine_vector v =
     (let avg = sum_loop v 0 in
      if length v = 0 then Inl DivisionByZero
      else Inr (avg div of_nat (length v)))"

text \<open>The loop of the peak-signal policy skips zero slots and counts the others.\<close>

fun peak_loop :: "int64_t list \<Rightarrow> int64_t \<times> int64_t \<Rightarrow> int64_t \<times> int64_t" where
  "peak_loop [] acc = acc"
| "peak_loop (x # xs) (avg, avgc) =
     (if x = 0 then peak_loop xs (avg, avgc) else peak_loop xs (avg + x, avgc + 1))"

definition peak_signal_combine_vector :: "int64_t list \<Rightarrow> error + int64_t" where
  "peak_signal_combine_vector v =
     (case peak_loop v (0, 0) of (avg, avgc) \<Rightarrow>
        if avgc = 0 then Inr (default_val kis_tracked_rrd_peak_signal_aggregator)
        else Inr (sdiv64 avg avgc))"

definition extreme_combine_vector :: "int64_t list \<Rightarrow> error + int64_t" where
  "extreme_combine_vector v =
     (let avg = sum_loop v 0 in
      if length v = 0 then Inl DivisionByZero
      else Inr (avg div of_nat (length v)))"

definition combine_vector :: "aggregator \<Rightarrow> int64_t list \<Rightarrow> error + int64_t" where
  "combine_vector agg v =
     (case agg of
        kis_tracked_rrd_default_aggregator \<Rightarrow> default_combine_vector v
      | kis_tracked_rrd_peak_signal_aggregator \<Rightarrow> peak_signal_combine_vector v
      | kis_tracked_rrd_extreme_aggregator \<Rightarrow> extreme_combine_vector v)"

section \<open>Round-robin aggregators\<close>

text \<open>
  The state of a \<open>kis_tracked_rrd\<close>: the time of the last update and the three slot
  vectors. \<open>minute_vec\<close> holds the second-slots, \<open>hour_vec\<close> the minute-slots and
  \<open>day_vec\<close> the hour-slots, each slot an \<open>int64_t\<close> element.
\<close>

record kis_tracked_rrd =
  last_time :: time_t
  minute_vec :: "int64_t list"
  hour_vec :: "int64_t list"
  day_vec :: "int64_t list"

text \<open>The constructor with no element to attach to: \<open>reserve_fields\<close> builds 60, 60 and
  24 slots, each a new element, whose value the element constructor sets to 0.\<close>

definition new_kis_tracked_rrd :: kis_tracked_rrd where
  "new_kis_tracked_rrd =
     \<lparr>last_time = 0, minute_vec = replicate 60 0, hour_vec = replicate 60 0,
      day_vec = replicate 24 0\<rparr>"

text \<open>
  Modelled from the spec: \<open>get_vector_value\<close> is declared in trackedelement.h, which is
  not under src/. A sequence is addressed by position; \<open>e = vec->get_vector_value(i);
  e->set(v)\<close> writes slot \<open>i\<close>, and a position outside the sequence is an access out of
  bounds.
\<close>

definition get_vector_value :: "int64_t list \<Rightarrow> int \<Rightarrow> error + int64_t" where
  "get_vector_value xs i =
     (if 0 \<le> i \<and> i < int (length xs) then Inr (xs ! nat i) else Inl OutOfBoundsAccess)"

definition set_vector_value :: "int \<Rightarrow> int64_t \<Rightarrow> int64_t list \<Rightarrow> error + int64_t list" where
  "set_vector_value i v xs =
     (if 0 \<le> i \<and> i < int (length xs) then Inr (xs[nat i := v]) else Inl OutOfBoundsAccess)"

text \<open>The iterator loop that writes the sample at its bucket and the default value
  everywhere else.\<close>

definition fill_single :: "int \<Rightarrow> int64_t \<Rightarrow> int64_t \<Rightarrow> int64_t list \<Rightarrow> int64_t list" where
  "fill_single bucket v d xs = map (\<lambda>j. if int j = bucket then v else d) [0..<length xs]"

text \<open>A counted loop that writes the default value at each position of a list of
  positions, in order.\<close>

fun clear_slots :: "int list \<Rightarrow> int64_t \<Rightarrow> int64_t list \<Rightarrow> error + int64_t list" where
  "clear_slots [] d xs = Inr xs"
| "clear_slots (i # js) d xs = bind (set_vector_value i d xs) (clear_slots js d)"

text \<open>\<open>for (int s = 0; s < n; s++)\<close> visiting \<open>(first + s) % period\<close>.\<close>

definition fast_forward :: "int \<Rightarrow> int \<Rightarrow> int \<Rightarrow> int list" where
  "fast_forward first n period = map (\<lambda>s. (first + int s) smod period) [0..<nat n]"

definition minutes_different :: "int \<Rightarrow> int \<Rightarrow> int" where
  "minutes_different m1 m2 =
     (if m1 = m2 then 0 else if m1 < m2 then m2 - m1 else 60 - m1 + m2)"

definition hours_different :: "int \<Rightarrow> int \<Rightarrow> int" where
  "hours_different h1 h2 =
     (if h1 = h2 then 0 else if h1 < h2 then h2 - h1 else 24 - h1 + h2)"

definition add_sample ::
  "aggregator \<Rightarrow> int64_t \<Rightarrow> time_t \<Rightarrow> kis_tracked_rrd \<Rightarrow> error + kis_tracked_rrd" where
  "add_sample agg in_s in_time r =
     (let sec_bucket = in_time smod 60;
          min_bucket = (in_time sdiv 60) smod 60;
          hour_bucket = (in_time sdiv 3600) smod 24;
          ltime = last_time r;
          last_sec_bucket = ltime smod 60;
          last_min_bucket = (ltime sdiv 60) smod 60;
          last_hour_bucket = (ltime sdiv 3600) smod 24;
          d = default_val agg
      in
      if in_time < ltime then Inr r
      else if in_time - ltime > 60 * 60 * 24 then
        (let mv = fill_single sec_bucket in_s d (minute_vec r) in
         bind (combine_vector agg mv) (\<lambda>min_val.
         let hv = fill_single min_bucket min_val d (hour_vec r) in
         bind (combine_vector agg hv) (\<lambda>hr_val.
         let dv = fill_single hour_bucket hr_val d (day_vec r) in
         Inr \<lparr>last_time = in_time, minute_vec = mv, hour_vec = hv, day_vec = dv\<rparr>)))
      else if in_time - ltime > 60 * 60 then
        (let mv = fill_single sec_bucket in_s d (minute_vec r) in
         bind (combine_vector agg mv) (\<lambda>sec_avg.
         let hv = fill_single min_bucket sec_avg d (hour_vec r) in
         bind (combine_vector agg hv) (\<lambda>min_avg.
         bind (clear_slots
                 (fast_forward (last_hour_bucket + 1)
                    (hours_different (last_hour_bucket + 1) hour_bucket) 24) d hv) (\<lambda>hv'.
         bind (set_vector_value hour_bucket min_avg (day_vec r)) (\<lambda>dv.
         Inr \<lparr>last_time = in_time, minute_vec = mv, hour_vec = hv', day_vec = dv\<rparr>)))))
      else if in_time - ltime > 60 then
        (let mv = fill_single sec_bucket in_s d (minute_vec r) in
         bind (combine_vector agg mv) (\<lambda>sec_avg.
         bind (clear_slots
                 (fast_forward (last_min_bucket + 1)
                    (minutes_different (last_min_bucket + 1) min_bucket) 60) d (hour_vec r))
           (\<lambda>hv.
         bind (set_vector_value min_bucket sec_avg hv) (\<lambda>hv'.
         bind (combine_vector agg hv') (\<lambda>min_avg.
         bind (set_vector_value hour_bucket min_avg (day_vec r)) (\<lambda>dv.
         Inr \<lparr>last_time = in_time, minute_vec = mv, hour_vec = hv', day_vec = dv\<rparr>))))))
      else
        bind (if in_time = ltime then
                bind (get_vector_value (minute_vec r) sec_bucket) (\<lambda>e.
                set_vector_value sec_bucket (combine_element agg e in_s) (minute_vec r))
              else
                bind (clear_slots
                        (fast_forward (last_sec_bucket + 1)
                           (minutes_different (last_sec_bucket + 1) sec_bucket) 60) d
                        (minute_vec r))
                  (set_vector_value sec_bucket in_s)) (\<lambda>mv.
        bind (combine_vector agg mv) (\<lambda>sec_avg.
        bind (set_vector_value min_bucket sec_avg (hour_vec r)) (\<lambda>hv.
        bind (combine_vector agg hv) (\<lambda>min_avg.
        bind (set_vector_value hour_bucket min_avg (day_vec r)) (\<lambda>dv.
        Inr \<lparr>last_time = in_time, minute_vec = mv, hour_vec = hv, day_vec = dv\<rparr>))))))"

text \<open>The minute-only variant \<open>kis_tracked_minute_rrd\<close>: the last update and the 60
  second-slots.\<close>

record kis_tracked_minute_rrd =
  minute_last_time :: time_t
  minute_slots :: "int64_t list"

definition new_kis_tracked_minute_rrd :: kis_tracked_minute_rrd where
  "new_kis_tracked_minute_rrd = \<lparr>minute_last_time = 0, minute_slots = replicate 60 0\<rparr>"

definition minute_add_sample ::
  "aggregator \<Rightarrow> int64_t \<Rightarrow> time_t \<Rightarrow> kis_tracked_minute_rrd
     \<Rightarrow> error + kis_tracked_minute_rrd" where
  "minute_add_sample agg in_s in_time r =
     (let sec_bucket = in_time smod 60;
          ltime = minute_last_time r;
          last_sec_bucket = ltime smod 60;
          d = default_val agg
      in
      if in_time < ltime then Inr r
      else
        bind (if in_time - ltime > 60 then
                clear_slots (map int [0..<60]) d (minute_slots r)
              else if in_time = ltime then
                bind (get_vector_value (minute_slots r) sec_bucket) (\<lambda>e.
                set_vector_value sec_bucket (combine_element agg e in_s) (minute_slots r))
              else
                bind (clear_slots
                        (fast_forward (last_sec_bucket + 1)
                           (minutes_different (last_sec_bucket + 1) sec_bucket) 60) d
                        (minute_slots r))
                  (set_vector_value sec_bucket in_s)) (\<lambda>mv.
        Inr \<lparr>minute_last_time = in_time, minute_slots = mv\<rparr>))"

section \<open>Signal records\<close>

text \<open>
  The layer-1 packet information read by the merge operators of
  \<open>kis_tracked_signal_data\<close>. Its class is declared in packet.h, outside src/; the fields
  are those the operators read. Signal and noise are \<open>int\<close> values cast to \<open>int32_t\<close>,
  carrier and encoding are cast to \<open>uint64_t\<close>, and the data rate is only compared and
  stored (as a \<open>double\<close>), so its type is a parameter with an order. The GPS fix of a
  \<open>Packinfo_Sig_Combo\<close> is only copied into the peak location: a parameter as well.
\<close>

datatype kis_layer1_packinfo_signal_type =
  kis_l1_signal_type_none | kis_l1_signal_type_dbm | kis_l1_signal_type_rssi

record 'r kis_layer1_packinfo =
  signal_type :: kis_layer1_packinfo_signal_type
  signal_dbm :: int32_t
  noise_dbm :: int32_t
  signal_rssi :: int32_t
  noise_rssi :: int32_t
  carrier :: uint64_t
  encoding :: uint64_t
  datarate :: 'r

record ('r, 'g) Packinfo_Sig_Combo =
  lay1 :: "'r kis_layer1_packinfo option"
  gps :: "'g option"

text \<open>The fields of \<open>kis_tracked_signal_data\<close>. The peak location and the minute RRD
  are created on first use (\<open>None\<close> before).\<close>

record ('r, 'g) kis_tracked_signal_data =
  last_signal_dbm :: int32_t
  last_noise_dbm :: int32_t
  min_signal_dbm :: int32_t
  min_noise_dbm :: int32_t
  max_signal_dbm :: int32_t
  max_noise_dbm :: int32_t
  last_signal_rssi :: int32_t
  last_noise_rssi :: int32_t
  min_signal_rssi :: int32_t
  min_noise_rssi :: int32_t
  max_signal_rssi :: int32_t
  max_noise_rssi :: int32_t
  peak_loc :: "'g option"
  maxseenrate :: 'r
  encodingset :: uint64_t
  carrierset :: uint64_t
  signal_min_rrd :: "kis_tracked_minute_rrd option"

text \<open>The constructor with no element to attach to: every field is a new element with
  value zero, and neither the peak location nor the minute RRD exists yet.\<close>

definition new_kis_tracked_signal_data :: "('r::zero, 'g) kis_tracked_signal_data" where
  "new_kis_tracked_signal_data =
     \<lparr>last_signal_dbm = 0, last_noise_dbm = 0, min_signal_dbm = 0, min_noise_dbm = 0,
      max_signal_dbm = 0, max_noise_dbm = 0, last_signal_rssi = 0, last_noise_rssi = 0,
      min_signal_rssi = 0, min_noise_rssi = 0, max_signal_rssi = 0, max_noise_rssi = 0,
      peak_loc = None, maxseenrate = 0, encodingset = 0, carrierset = 0,
      signal_min_rrd = None\<rparr>"

text \<open>The blocks of the two operators, in the order of the source. Each reads the
  stored minimum or maximum and writes the field the source writes.\<close>

definition merge_signal_dbm ::
  "int32_t \<Rightarrow> ('r, 'g) kis_tracked_signal_data \<Rightarrow> ('r, 'g) kis_tracked_signal_data" where
  "merge_signal_dbm v s =
     (let s1 = s\<lparr>last_signal_dbm := v\<rparr>;
          s2 = (if min_signal_dbm s1 = 0 \<or> v <s min_signal_dbm s1
                then s1\<lparr>min_signal_dbm := v\<rparr> else s1)
      in if max_signal_dbm s2 = 0 \<or> max_signal_dbm s2 <s v
         then s2\<lparr>max_signal_dbm := v\<rparr> else s2)"

definition merge_noise_dbm ::
  "int32_t \<Rightarrow> ('r, 'g) kis_tracked_signal_data \<Rightarrow> ('r, 'g) kis_tracked_signal_data" where
  "merge_noise_dbm v s =
     (let s1 = s\<lparr>last_noise_dbm := v\<rparr>;
          s2 = (if min_noise_dbm s1 = 0 \<or> v <s min_noise_dbm s1
                then s1\<lparr>min_noise_dbm := v\<rparr> else s1)
      in if max_noise_dbm s2 = 0 \<or> max_noise_dbm s2 <s v
         then s2\<lparr>max_noise_dbm := v\<rparr> else s2)"

text \<open>The RSSI signal block tests \<open>min_signal_rssi\<close> and then calls
  \<open>min_signal_dbm->set\<close>.\<close>

definition merge_signal_rssi ::
  "int32_t \<Rightarrow> ('r, 'g) kis_tracked_signal_data \<Rightarrow> ('r, 'g) kis_tracked_signal_data" where
  "merge_signal_rssi v s =
     (let s1 = s\<lparr>last_signal_rssi := v\<rparr>;
          s2 = (if min_signal_rssi s1 = 0 \<or> v <s min_signal_rssi s1
                then s1\<lparr>min_signal_dbm := v\<rparr> else s1)
      in if max_signal_rssi s2 = 0 \<or> max_signal_rssi s2 <s v
         then s2\<lparr>max_signal_rssi := v\<rparr> else s2)"

definition merge_noise_rssi ::
  "int32_t \<Rightarrow> ('r, 'g) kis_tracked_signal_data \<Rightarrow> ('r, 'g) kis_tracked_signal_data" where
  "merge_noise_rssi v s =
     (let s1 = s\<lparr>last_noise_rssi := v\<rparr>;
          s2 = (if min_noise_rssi s1 = 0 \<or> v <s min_noise_rssi s1
                then s1\<lparr>min_noise_rssi := v\<rparr> else s1)
      in if max_noise_rssi s2 = 0 \<or> max_noise_rssi s2 <s v
         then s2\<lparr>max_noise_rssi := v\<rparr> else s2)"

definition merge_sets_and_rate ::
  "('r::ord) kis_layer1_packinfo \<Rightarrow> ('r, 'g) kis_tracked_signal_data
     \<Rightarrow> ('r, 'g) kis_tracked_signal_data" where
  "merge_sets_and_rate l s =
     (let s1 = s\<lparr>carrierset := or (carrierset s) (carrier l)\<rparr>;
          s2 = s1\<lparr>encodingset := or (encodingset s1) (encoding l)\<rparr>
      in if maxseenrate s2 < datarate l then s2\<lparr>maxseenrate := datarate l\<rparr> else s2)"

text \<open>\<open>operator+=(const kis_layer1_packinfo&)\<close>: the carrier, encoding and rate are
  merged in the RSSI branch only.\<close>

definition signal_data_add_packinfo ::
  "('r::ord, 'g) kis_tracked_signal_data \<Rightarrow> 'r kis_layer1_packinfo
     \<Rightarrow> ('r, 'g) kis_tracked_signal_data" where
  "signal_data_add_packinfo s l =
     (if signal_type l = kis_l1_signal_type_dbm then
        (let s1 = (if signal_dbm l \<noteq> 0 then merge_signal_dbm (signal_dbm l) s else s)
         in if noise_dbm l \<noteq> 0 then merge_noise_dbm (noise_dbm l) s1 else s1)
      else if signal_type l = kis_l1_signal_type_rssi then
        (let s1 = (if signal_rssi l \<noteq> 0 then merge_signal_rssi (signal_rssi l) s else s);
             s2 = (if noise_rssi l \<noteq> 0 then merge_noise_rssi (noise_rssi l) s1 else s1)
         in merge_sets_and_rate l s2)
      else s)"

text \<open>
  \<open>operator+=(const Packinfo_Sig_Combo&)\<close>. A new maximum also records the GPS fix as the
  peak location, and every non-zero signal is added to the minute RRD (peak-signal policy)
  at the current time \<open>now\<close> (\<open>globalreg->timestamp.tv_sec\<close>).
\<close>

text \<open>
  Modelled from the spec: the accessors \<open>get_peak_loc\<close> and \<open>get_signal_min_rrd\<close> come
  from the macro \<open>__ProxyDynamicTrackable\<close>, which is not under src/. A record is created
  once and then mutated: the accessor returns the existing record, or a newly constructed
  one when none exists yet.
\<close>

definition set_peak_loc ::
  "'g option \<Rightarrow> ('r, 'g) kis_tracked_signal_data \<Rightarrow> ('r, 'g) kis_tracked_signal_data" where
  "set_peak_loc g s = (case g of None \<Rightarrow> s | Some fix \<Rightarrow> s\<lparr>peak_loc := Some fix\<rparr>)"

definition signal_rrd_add_sample ::
  "int32_t \<Rightarrow> time_t \<Rightarrow> ('r, 'g) kis_tracked_signal_data
     \<Rightarrow> error + ('r, 'g) kis_tracked_signal_data" where
  "signal_rrd_add_sample v now s =
     bind (minute_add_sample kis_tracked_rrd_peak_signal_aggregator (scast v) now
             (case signal_min_rrd s of None \<Rightarrow> new_kis_tracked_minute_rrd | Some r \<Rightarrow> r))
       (\<lambda>r'. Inr (s\<lparr>signal_min_rrd := Some r'\<rparr>))"

definition combo_signal_dbm ::
  "int32_t \<Rightarrow> 'g option \<Rightarrow> time_t \<Rightarrow> ('r, 'g) kis_tracked_signal_data
     \<Rightarrow> error + ('r, 'g) kis_tracked_signal_data" where
  "combo_signal_dbm v g now s =
     (let s1 = s\<lparr>last_signal_dbm := v\<rparr>;
          s2 = (if min_signal_dbm s1 = 0 \<or> v <s min_signal_dbm s1
                then s1\<lparr>min_signal_dbm := v\<rparr> else s1);
          s3 = (if max_signal_dbm s2 = 0 \<or> max_signal_dbm s2 <s v
                then set_peak_loc g (s2\<lparr>max_signal_dbm := v\<rparr>) else s2)
      in signal_rrd_add_sample v now s3)"

definition combo_signal_rssi ::
  "int32_t \<Rightarrow> 'g option \<Rightarrow> time_t \<Rightarrow> ('r, 'g) kis_tracked_signal_data
     \<Rightarrow> error + ('r, 'g) kis_tracked_signal_data" where
  "combo_signal_rssi v g now s =
     (let s1 = s\<lparr>last_signal_rssi := v\<rparr>;
          s2 = (if min_signal_rssi s1 = 0 \<or> v <s min_signal_rssi s1
                then s1\<lparr>min_signal_dbm := v\<rparr> else s1);
          s3 = (if max_signal_rssi s2 = 0 \<or> max_signal_rssi s2 <s v
                then set_peak_loc g (s2\<lparr>max_signal_rssi := v\<rparr>) else s2)
      in signal_rrd_add_sample v now s3)"

definition signal_data_add_combo ::
  "('r::ord, 'g) kis_tracked_signal_data \<Rightarrow> ('r, 'g) Packinfo_Sig_Combo \<Rightarrow> time_t
     \<Rightarrow> error + ('r, 'g) kis_tracked_signal_data" where
  "signal_data_add_combo s c now =
     (case lay1 c of
        None \<Rightarrow> Inr s
      | Some l \<Rightarrow>
          bind
            (if signal_type l = kis_l1_signal_type_dbm then
               bind (if signal_dbm l \<noteq> 0 then combo_signal_dbm (signal_dbm l) (gps c) now s
                     else Inr s) (\<lambda>s1.
               Inr (if noise_dbm l \<noteq> 0 then merge_noise_dbm (noise_dbm l) s1 else s1))
             else if signal_type l = kis_l1_signal_type_rssi then
               bind (if signal_rssi l \<noteq> 0 then combo_signal_rssi (signal_rssi l) (gps c) now s
                     else Inr s) (\<lambda>s1.
               Inr (if noise_rssi l \<noteq> 0 then merge_noise_rssi (noise_rssi l) s1 else s1))
             else Inr s)
            (\<lambda>s2. Inr (merge_sets_and_rate l s2)))"

section \<open>The tagged value tree\<close>

text \<open>
  The kinds named by \<open>type_to_string\<close>. An element is an object on a heap, addressed by
  its pointer; it holds its kind, its reference count and the four containers, which every
  element has as members whatever its kind. The scalar members play no part in the
  container operations and are left out. A \<open>std::map\<close> is a list of key and pointer
  pairs with distinct keys; a MAC address is an opaque ordered key.
\<close>

datatype TrackerType =
    TrackerString | TrackerInt8 | TrackerUInt8 | TrackerInt16 | TrackerUInt16
  | TrackerInt32 | TrackerUInt32 | TrackerInt64 | TrackerUInt64 | TrackerFloat
  | TrackerDouble | TrackerMac | TrackerVector | TrackerMap | TrackerIntMap
  | TrackerUuid | TrackerMacMap

type_synonym addr = nat
type_synonym mac_addr = nat

record TrackerElement =
  tracker_type :: TrackerType
  reference_count :: int
  subvector_value :: "addr list"
  submap_value :: "(int \<times> addr) list"
  subintmap_value :: "(int \<times> addr) list"
  submacmap_value :: "(mac_addr \<times> addr) list"

type_synonym heap = "addr \<Rightarrow> TrackerElement option"

text \<open>A call that returns gives \<open>Some\<close> of its result or error; \<open>None\<close> is a cascade
  of destructions that never ends.\<close>

type_synonym 'a outcome = "(error + 'a) option"

definition then_do :: "'a outcome \<Rightarrow> ('a \<Rightarrow> 'b outcome) \<Rightarrow> 'b outcome" where
  "then_do m f = (case m of None \<Rightarrow> None | Some (Inl e) \<Rightarrow> Some (Inl e) | Some (Inr x) \<Rightarrow> f x)"

text \<open>The constructor \<open>TrackerElement(type)\<close>: no reference, empty containers.\<close>

definition new_TrackerElement :: "TrackerType \<Rightarrow> TrackerElement" where
  "new_TrackerElement t =
     \<lparr>tracker_type = t, reference_count = 0, subvector_value = [], submap_value = [],
      subintmap_value = [], submacmap_value = []\<rparr>"

text \<open>The pointers the destructor unlinks, by the kind of the element.\<close>

definition owned_children :: "TrackerElement \<Rightarrow> addr list" where
  "owned_children e =
     (if tracker_type e = TrackerVector then subvector_value e
      else if tracker_type e = TrackerMap then map snd (submap_value e)
      else if tracker_type e = TrackerIntMap then map snd (subintmap_value e)
      else if tracker_type e = TrackerMacMap then map snd (submacmap_value e)
      else [])"

text \<open>
  Modelled from the spec: \<open>link\<close> and \<open>unlink\<close> are declared in trackedelement.h, which
  is not under src/. Inserting a child increments its reference count; removing it
  decrements the count, and an element whose count reaches zero is destroyed. The
  destructor (in src) unlinks every child the element owns, which may destroy them in
  turn: \<open>unlink_all\<close> unlinks a list of pointers in order, the children of a destroyed
  element before the pointers that follow it. An element is destroyed here only when its
  count is zero, so the destructor's test for a non-zero count does not fire.
\<close>

definition link :: "addr \<Rightarrow> heap \<Rightarrow> error + heap" where
  "link a h =
     (case h a of
        None \<Rightarrow> Inl InvalidPointer
      | Some e \<Rightarrow> Inr (h(a \<mapsto> e\<lparr>reference_count := reference_count e + 1\<rparr>)))"

partial_function (option) unlink_all :: "addr list \<Rightarrow> heap \<Rightarrow> heap outcome" where
  "unlink_all ps h =
     (case ps of
        [] \<Rightarrow> Some (Inr h)
      | a # rest \<Rightarrow>
          (case h a of
             None \<Rightarrow> Some (Inl InvalidPointer)
           | Some e \<Rightarrow>
               if reference_count e - 1 = 0
               then unlink_all (owned_children e @ rest) (h(a := None))
               else unlink_all rest (h(a \<mapsto> e\<lparr>reference_count := reference_count e - 1\<rparr>))))"

declare unlink_all.simps [code]

definition unlink :: "addr \<Rightarrow> heap \<Rightarrow> heap outcome" where
  "unlink a h = unlink_all [a] h"

text \<open>
  Modelled from the spec: \<open>except_type_mismatch\<close> is declared in trackedelement.h; access
  under a kind other than the element's fails with TypeMismatch.
\<close>

definition except_type_mismatch :: "TrackerElement \<Rightarrow> TrackerType \<Rightarrow> bool" where
  "except_type_mismatch e t = (tracker_type e \<noteq> t)"

text \<open>The container operations; \<open>this\<close> is the pointer of the element they are called
  on. An entry that is replaced is unlinked before the new pointer is stored and linked.\<close>

definition add_macmap :: "mac_addr \<Rightarrow> addr \<Rightarrow> addr \<Rightarrow> heap \<Rightarrow> heap outcome" where
  "add_macmap i s this h =
     (case h this of
        None \<Rightarrow> Some (Inl InvalidPointer)
      | Some e \<Rightarrow>
          if except_type_mismatch e TrackerMacMap then Some (Inl TypeMismatch)
          else
            then_do (case map_of (submacmap_value e) i of
                       None \<Rightarrow> Some (Inr h)
                     | Some old \<Rightarrow> unlink old h) (\<lambda>h1.
            case h1 this of
              None \<Rightarrow> Some (Inl InvalidPointer)
            | Some e1 \<Rightarrow>
                Some (link s
                  (h1(this \<mapsto> e1\<lparr>submacmap_value := AList.update i s (submacmap_value e1)\<rparr>)))))"

text \<open>\<open>del_macmap\<close> tests the kind against \<open>TrackerMap\<close>. The pointer unlinked is the one
  the erased entry held.\<close>

definition del_macmap :: "mac_addr \<Rightarrow> addr \<Rightarrow> heap \<Rightarrow> heap outcome" where
  "del_macmap f this h =
     (case h this of
        None \<Rightarrow> Some (Inl InvalidPointer)
      | Some e \<Rightarrow>
          if except_type_mismatch e TrackerMap then Some (Inl TypeMismatch)
          else
            (case map_of (submacmap_value e) f of
               None \<Rightarrow> Some (Inr h)
             | Some c \<Rightarrow>
                 unlink c
                   (h(this \<mapsto> e\<lparr>submacmap_value := AList.delete f (submacmap_value e)\<rparr>))))"

definition add_intmap :: "int \<Rightarrow> addr \<Rightarrow> addr \<Rightarrow> heap \<Rightarrow> heap outcome" where
  "add_intmap i s this h =
     (case h this of
        None \<Rightarrow> Some (Inl InvalidPointer)
      | Some e \<Rightarrow>
          if except_type_mismatch e TrackerIntMap then Some (Inl TypeMismatch)
          else
            then_do (case map_of (subintmap_value e) i of
                       None \<Rightarrow> Some (Inr h)
                     | Some old \<Rightarrow> unlink old h) (\<lambda>h1.
            case h1 this of
              None \<Rightarrow> Some (Inl InvalidPointer)
            | Some e1 \<Rightarrow>
                Some (link s
                  (h1(this \<mapsto> e1\<lparr>subintmap_value := AList.update i s (subintmap_value e1)\<rparr>)))))"

text \<open>\<open>del_intmap\<close> looks the key up in \<open>subintmap_value\<close> and calls
  \<open>submap_value.erase(i)\<close>.\<close>

definition del_intmap :: "int \<Rightarrow> addr \<Rightarrow> heap \<Rightarrow> heap outcome" where
  "del_intmap i this h =
     (case h this of
        None \<Rightarrow> Some (Inl InvalidPointer)
      | Some e \<Rightarrow>
          if except_type_mismatch e TrackerIntMap then Some (Inl TypeMismatch)
          else
            (case map_of (subintmap_value e) i of
               None \<Rightarrow> Some (Inr h)
             | Some c \<Rightarrow>
                 unlink c (h(this \<mapsto> e\<lparr>submap_value := AList.delete i (submap_value e)\<rparr>))))"

definition add_vector :: "addr \<Rightarrow> addr \<Rightarrow> heap \<Rightarrow> heap outcome" where
  "add_vector s this h =
     (case h this of
        None \<Rightarrow> Some (Inl InvalidPointer)
      | Some e \<Rightarrow>
          if except_type_mismatch e TrackerVector then Some (Inl TypeMismatch)
          else Some (link s (h(this \<mapsto> e\<lparr>subvector_value := subvector_value e @ [s]\<rparr>))))"

text \<open>\<open>del_vector\<close> throws when \<open>p > subvector_value.size()\<close>; \<open>p\<close> equal to the size
  passes the test and \<open>subvector_value[p]\<close> reads past the last element.\<close>

definition del_vector :: "nat \<Rightarrow> addr \<Rightarrow> heap \<Rightarrow> heap outcome" where
  "del_vector p this h =
     (case h this of
        None \<Rightarrow> Some (Inl InvalidPointer)
      | Some e \<Rightarrow>
          if except_type_mismatch e TrackerVector then Some (Inl TypeMismatch)
          else if p > length (subvector_value e) then Some (Inl OwnershipViolation)
          else if p = length (subvector_value e) then Some (Inl OutOfBoundsAccess)
          else
            unlink (subvector_value e ! p)
              (h(this \<mapsto> e\<lparr>subvector_value :=
                   take p (subvector_value e) @ drop (Suc p) (subvector_value e)\<rparr>)))"

text \<open>\<open>size\<close> of a container element.\<close>

definition size_of :: "TrackerElement \<Rightarrow> error + nat" where
  "size_of e =
     (if tracker_type e = TrackerVector then Inr (length (subvector_value e))
      else if tracker_type e = TrackerMap then Inr (length (submap_value e))
      else if tracker_type e = TrackerIntMap then Inr (length (subintmap_value e))
      else if tracker_type e = TrackerMacMap then Inr (length (submacmap_value e))
      else Inl TypeMismatch)"

section \<open>Properties of the aggregation policies\<close>

lemma peak_loop_filter:
  "peak_loop v (avg, avgc) =
     (avg + sum_list (filter (\<lambda>x. x \<noteq> 0) v),
      avgc + of_nat (length (filter (\<lambda>x. x \<noteq> 0) v)))"
  by (induction v arbitrary: avg avgc) (simp_all add: algebra_simps)

lemma count_word_zero_iff:
  assumes "n < 2 ^ 64"
  shows "(of_nat n :: 64 word) = 0 \<longleftrightarrow> n = 0"
proof
  assume "(of_nat n :: 64 word) = 0"
  then have "2 ^ 64 dvd n"
    by (simp add: word_of_nat_eq_0_iff)
  with assms show "n = 0"
    by (auto dest: dvd_imp_le)
qed simp

text \<open>
  C6. The extreme-value policy's \<open>combine_element\<close>: of two negative readings it keeps the
  lower one and of two positive readings the higher one, in both cases the one of larger
  magnitude; when one operand is zero it returns the other; on mixed signs it returns the
  negative operand. In particular \<open>(-5, -10)\<close> gives \<open>-10\<close>, \<open>(5, 10)\<close> gives \<open>10\<close>,
  \<open>(0, 7)\<close> gives \<open>7\<close> and \<open>(-3, 4)\<close> gives \<open>-3\<close>.
\<close>

theorem extreme_combine_element_selects:
  fixes a b :: int64_t
  defines "r \<equiv> combine_element kis_tracked_rrd_extreme_aggregator a b"
  shows "(sint a < 0 \<and> sint b < 0 \<longrightarrow>
            sint r = min (sint a) (sint b) \<and> \<bar>sint r\<bar> = max \<bar>sint a\<bar> \<bar>sint b\<bar>)
       \<and> (0 < sint a \<and> 0 < sint b \<longrightarrow>
            sint r = max (sint a) (sint b) \<and> \<bar>sint r\<bar> = max \<bar>sint a\<bar> \<bar>sint b\<bar>)
       \<and> (a = 0 \<longrightarrow> r = b)
       \<and> (b = 0 \<longrightarrow> r = a)
       \<and> (sint a < 0 \<and> 0 < sint b \<longrightarrow> r = a)
       \<and> (sint b < 0 \<and> 0 < sint a \<longrightarrow> r = b)
       \<and> combine_element kis_tracked_rrd_extreme_aggregator (- 5) (- 10) = - 10
       \<and> combine_element kis_tracked_rrd_extreme_aggregator 5 10 = 10
       \<and> combine_element kis_tracked_rrd_extreme_aggregator 0 7 = 7
       \<and> combine_element kis_tracked_rrd_extreme_aggregator (- 3) 4 = - 3"
  unfolding r_def combine_element_def extreme_combine_element_def
  by (auto simp add: word_sless_alt min_def max_def)

theorem extreme_combine_element_selects_witness:
  "sint (- 5 :: int64_t) < 0 \<and> sint (- 10 :: int64_t) < 0
   \<and> sint (combine_element kis_tracked_rrd_extreme_aggregator (- 5) (- 10)) = - 10
   \<and> 0 < sint (5 :: int64_t) \<and> 0 < sint (10 :: int64_t)
   \<and> sint (combine_element kis_tracked_rrd_extreme_aggregator 5 10) = 10
   \<and> combine_element kis_tracked_rrd_extreme_aggregator 0 7 = 7
   \<and> combine_element kis_tracked_rrd_extreme_aggregator 7 0 = 7
   \<and> sint (- 3 :: int64_t) < 0 \<and> 0 < sint (4 :: int64_t)
   \<and> combine_element kis_tracked_rrd_extreme_aggregator (- 3) 4 = - 3
   \<and> combine_element kis_tracked_rrd_extreme_aggregator 4 (- 3) = - 3"
  using extreme_combine_element_selects [of "- 5" "- 10"]
    extreme_combine_element_selects [of 5 10]
    extreme_combine_element_selects [of 0 7]
    extreme_combine_element_selects [of 7 0]
    extreme_combine_element_selects [of "- 3" 4]
    extreme_combine_element_selects [of 4 "- 3"]
  by simp

text \<open>
  C7. The peak-signal policy's \<open>combine_vector\<close> averages the non-zero slots only (sum of
  the non-zero slots divided by their number, truncating) and returns the default value when
  every slot is zero; for the bucket \<open>[0, 0, -40, 0, -30]\<close> it returns \<open>-35\<close>. The count
  is an \<open>int64_t\<close>, hence the bound on the length.
\<close>

theorem peak_signal_combine_vector_skips_empty:
  "(length v < 2 ^ 64 \<longrightarrow>
      combine_vector kis_tracked_rrd_peak_signal_aggregator v =
        Inr (if \<forall>x \<in> set v. x = 0
             then default_val kis_tracked_rrd_peak_signal_aggregator
             else sdiv64 (sum_list (filter (\<lambda>x. x \<noteq> 0) v))
                    (of_nat (length (filter (\<lambda>x. x \<noteq> 0) v)))))
   \<and> combine_vector kis_tracked_rrd_peak_signal_aggregator [0, 0, - 40, 0, - 30]
       = Inr (- 35)"
proof (intro conjI impI)
  let ?nz = "filter (\<lambda>x. x \<noteq> 0) v"
  assume len: "length v < 2 ^ 64"
  have "length ?nz \<le> length v"
    by (rule length_filter_le)
  then have "length ?nz < 2 ^ 64"
    using len by (rule le_less_trans)
  then have zero: "(of_nat (length ?nz) :: 64 word) = 0 \<longleftrightarrow> ?nz = []"
    by (simp add: count_word_zero_iff)
  have empty: "?nz = [] \<longleftrightarrow> (\<forall>x \<in> set v. x = 0)"
    by (simp add: filter_empty_conv)
  show "combine_vector kis_tracked_rrd_peak_signal_aggregator v =
        Inr (if \<forall>x \<in> set v. x = 0
             then default_val kis_tracked_rrd_peak_signal_aggregator
             else sdiv64 (sum_list ?nz) (of_nat (length ?nz)))"
    using zero empty
    by (simp add: combine_vector_def peak_signal_combine_vector_def peak_loop_filter)
next
  show "combine_vector kis_tracked_rrd_peak_signal_aggregator [0, 0, - 40, 0, - 30]
       = Inr (- 35)"
    by (simp add: combine_vector_def peak_signal_combine_vector_def sdiv64_def
        signed_divide_int_def)
qed

theorem peak_signal_combine_vector_skips_empty_witness:
  "length [0, 0, - 40, 0, - 30 :: int64_t] < 2 ^ 64
   \<and> \<not> (\<forall>x \<in> set [0, 0, - 40, 0, - 30 :: int64_t]. x = 0)
   \<and> combine_vector kis_tracked_rrd_peak_signal_aggregator [0, 0, - 40, 0, - 30]
       = Inr (sdiv64 (- 70) 2)
   \<and> length [0, 0 :: int64_t] < 2 ^ 64
   \<and> combine_vector kis_tracked_rrd_peak_signal_aggregator [0, 0]
       = Inr (default_val kis_tracked_rrd_peak_signal_aggregator)"
  using peak_signal_combine_vector_skips_empty [of "[0, 0, - 40, 0, - 30]"]
    peak_signal_combine_vector_skips_empty [of "[0, 0]"]
  by simp

text \<open>
  C2. A bucket reduction with no contributing slot. The peak-signal policy returns its
  default value; the sum/average and the extreme-value policies divide the sum by the
  number of slots, which is zero for an empty vector.
\<close>

theorem combine_vector_empty_divides_by_zero:
  "combine_vector kis_tracked_rrd_default_aggregator [] = Inl DivisionByZero
   \<and> combine_vector kis_tracked_rrd_extreme_aggregator [] = Inl DivisionByZero
   \<and> combine_vector kis_tracked_rrd_peak_signal_aggregator []
       = Inr (default_val kis_tracked_rrd_peak_signal_aggregator)"
  by (simp add: combine_vector_def default_combine_vector_def extreme_combine_vector_def
      peak_signal_combine_vector_def)

section \<open>Properties of the round-robin aggregators\<close>

lemma clear_slots_append:
  "clear_slots (is @ js) d xs = bind (clear_slots is d xs) (clear_slots js d)"
  by (induction "is" arbitrary: xs) (auto simp add: bind_def split: sum.splits)

lemma clear_slots_prefix:
  "n \<le> length xs \<Longrightarrow>
     clear_slots (map int [0..<n]) d xs = Inr (replicate n d @ drop n xs)"
proof (induction n)
  case 0
  then show ?case by simp
next
  case (Suc n)
  then have n: "n < length xs" by simp
  have d: "drop n xs = xs ! n # drop (Suc n) xs"
    using n by (simp add: Cons_nth_drop_Suc)
  have "(replicate n d @ drop n xs)[n := d] = replicate n d @ (drop n xs)[0 := d]"
    by (simp add: list_update_append)
  also have "\<dots> = replicate n d @ (d # drop (Suc n) xs)"
    by (subst d) simp
  also have "\<dots> = replicate (Suc n) d @ drop (Suc n) xs"
    by (simp add: replicate_app_Cons_same)
  finally have upd:
    "(replicate n d @ drop n xs)[n := d] = replicate (Suc n) d @ drop (Suc n) xs" .
  from Suc n show ?case
    by (simp add: clear_slots_append bind_def set_vector_value_def upd del: replicate_Suc)
qed

lemma smod_60_range:
  fixes k :: int
  assumes "0 \<le> k"
  shows "0 \<le> k smod 60 \<and> k smod 60 < 60"
proof -
  have "k smod 60 = k mod 60"
    using assms by (simp add: signed_modulo_int_def sgn_if)
  then show ?thesis by simp
qed

lemma clear_slots_in_range:
  "\<forall>i \<in> set js. 0 \<le> i \<and> i < int (length xs) \<Longrightarrow>
     \<exists>ys. clear_slots js d xs = Inr ys \<and> length ys = length xs"
proof (induction js arbitrary: xs)
  case Nil
  then show ?case by simp
next
  case (Cons j js)
  let ?xs = "xs[nat j := d]"
  from Cons.prems have j: "set_vector_value j d xs = Inr ?xs"
    by (simp add: set_vector_value_def)
  from Cons.prems have "\<forall>i \<in> set js. 0 \<le> i \<and> i < int (length ?xs)"
    by simp
  then obtain ys where "clear_slots js d ?xs = Inr ys" and "length ys = length ?xs"
    using Cons.IH by blast
  with j show ?case
    by (simp add: bind_def)
qed

lemma fast_forward_in_range:
  "0 \<le> first \<Longrightarrow> \<forall>i \<in> set (fast_forward first n 60). 0 \<le> i \<and> i < 60"
  by (auto simp add: fast_forward_def smod_60_range)

lemma minute_add_sample_returns:
  assumes len: "60 \<le> length (minute_slots r)" and lt: "0 \<le> minute_last_time r"
  shows "\<exists>r'. minute_add_sample agg v t r = Inr r'"
proof (cases "t < minute_last_time r")
  case True
  then show ?thesis by (simp add: minute_add_sample_def Let_def)
next
  case False
  then have t: "0 \<le> t" using lt by simp
  have sec: "0 \<le> t smod 60 \<and> t smod 60 < int (length (minute_slots r))"
    using smod_60_range [OF t] len by simp
  show ?thesis
  proof (cases "t - minute_last_time r > 60")
    case True
    with False len show ?thesis
      using clear_slots_prefix [of 60 "minute_slots r" "default_val agg"]
      by (simp add: minute_add_sample_def Let_def bind_def)
  next
    case gap: False
    show ?thesis
    proof (cases "t = minute_last_time r")
      case True
      with sec show ?thesis
        by (simp add: minute_add_sample_def Let_def bind_def get_vector_value_def
            set_vector_value_def)
    next
      case ne: False
      have "0 \<le> minute_last_time r smod 60 + 1"
        using smod_60_range [OF lt] by simp
      then have "\<forall>i \<in> set (fast_forward (minute_last_time r smod 60 + 1)
            (minutes_different (minute_last_time r smod 60 + 1) (t smod 60)) 60).
            0 \<le> i \<and> i < 60"
        by (rule fast_forward_in_range)
      then have "\<forall>i \<in> set (fast_forward (minute_last_time r smod 60 + 1)
            (minutes_different (minute_last_time r smod 60 + 1) (t smod 60)) 60).
            0 \<le> i \<and> i < int (length (minute_slots r))"
        using len by force
      then obtain ys where ys: "clear_slots (fast_forward (minute_last_time r smod 60 + 1)
            (minutes_different (minute_last_time r smod 60 + 1) (t smod 60)) 60)
            (default_val agg) (minute_slots r) = Inr ys" "length ys = length (minute_slots r)"
        using clear_slots_in_range by blast
      with False gap ne sec show ?thesis
        by (simp add: minute_add_sample_def Let_def bind_def set_vector_value_def)
    qed
  qed
qed


text \<open>
  C1 as the spec states it: after \<open>add_sample(7, 0)\<close> and \<open>add_sample(9, 100000)\<close> on a
  fresh sum/average RRD the minute-slot at position 46 and the hour-slot at position 3
  would hold 9. They do not: the minute-slots are not "all default but 9 at position 46",
  nor are the hour-slots "all default but 9 at position 3".
\<close>

theorem rrd_day_reset_counterexample:
  "map_sum id hour_vec
     (bind (add_sample kis_tracked_rrd_default_aggregator 7 0 new_kis_tracked_rrd)
        (add_sample kis_tracked_rrd_default_aggregator 9 100000))
     \<noteq> Inr ((replicate 60 0)[46 := 9])
   \<and> map_sum id day_vec
     (bind (add_sample kis_tracked_rrd_default_aggregator 7 0 new_kis_tracked_rrd)
        (add_sample kis_tracked_rrd_default_aggregator 9 100000))
     \<noteq> Inr ((replicate 24 0)[3 := 9])"
  by code_simp

text \<open>
  C1, amended. After \<open>add_sample(7, 0)\<close> and \<open>add_sample(9, 100000)\<close> on a fresh
  sum/average RRD the only slot that differs from the default value is the second-slot at
  position 40, which holds the raw value 9. The minute-slot at position 46 holds the
  bucket reduction of the second-slots, \<open>9 / 60 = 0\<close>, and the hour-slot at position 3 the
  reduction of the minute-slots, \<open>0 / 60 = 0\<close>; the last update time is 100000.
\<close>

theorem rrd_day_reset_reduces_buckets:
  "bind (add_sample kis_tracked_rrd_default_aggregator 7 0 new_kis_tracked_rrd)
     (add_sample kis_tracked_rrd_default_aggregator 9 100000)
   = Inr \<lparr>last_time = 100000, minute_vec = (replicate 60 0)[40 := 9],
           hour_vec = replicate 60 0, day_vec = replicate 24 0\<rparr>"
  by code_simp

text \<open>
  C8. In both RRD variants, \<open>add_sample\<close> with a timestamp before the last update time
  returns normally and leaves the whole record as it was: no slot and not the last update
  time is changed.
\<close>

theorem add_sample_stale_is_noop:
  "(in_time < last_time r \<longrightarrow> add_sample agg v in_time r = Inr r)
   \<and> (in_time < minute_last_time m \<longrightarrow> minute_add_sample agg v in_time m = Inr m)"
  by (simp add: add_sample_def minute_add_sample_def Let_def)

theorem add_sample_stale_is_noop_witness:
  "(50 :: int) < last_time (new_kis_tracked_rrd\<lparr>last_time := 100\<rparr>)
   \<and> add_sample kis_tracked_rrd_default_aggregator 7 50
        (new_kis_tracked_rrd\<lparr>last_time := 100\<rparr>)
       = Inr (new_kis_tracked_rrd\<lparr>last_time := 100\<rparr>)
   \<and> (50 :: int) < minute_last_time (new_kis_tracked_minute_rrd\<lparr>minute_last_time := 100\<rparr>)
   \<and> minute_add_sample kis_tracked_rrd_default_aggregator 7 50
        (new_kis_tracked_minute_rrd\<lparr>minute_last_time := 100\<rparr>)
       = Inr (new_kis_tracked_minute_rrd\<lparr>minute_last_time := 100\<rparr>)"
  using add_sample_stale_is_noop [where in_time = 50
      and r = "new_kis_tracked_rrd\<lparr>last_time := 100\<rparr>"
      and m = "new_kis_tracked_minute_rrd\<lparr>minute_last_time := 100\<rparr>"
      and agg = kis_tracked_rrd_default_aggregator and v = 7]
  by (simp add: new_kis_tracked_rrd_def new_kis_tracked_minute_rrd_def)

text \<open>
  C9. In the minute-only variant with its 60 second-slots, a sample that arrives more
  than 60 seconds after the last update sets every one of the 60 second-slots to the
  default value and is itself discarded: the slot at the position of the timestamp holds
  the default value afterwards, and the last update time is the timestamp.
\<close>

theorem minute_add_sample_gap_wipes:
  assumes "60 \<le> length (minute_slots r)"
    and "minute_last_time r \<le> in_time"
    and "in_time - minute_last_time r > 60"
  shows "minute_add_sample agg v in_time r =
           Inr \<lparr>minute_last_time = in_time,
                minute_slots = replicate 60 (default_val agg) @ drop 60 (minute_slots r)\<rparr>
         \<and> (0 \<le> in_time \<longrightarrow>
              get_vector_value
                (replicate 60 (default_val agg) @ drop 60 (minute_slots r)) (in_time smod 60)
                = Inr (default_val agg))"
proof
  show "minute_add_sample agg v in_time r =
           Inr \<lparr>minute_last_time = in_time,
                minute_slots = replicate 60 (default_val agg) @ drop 60 (minute_slots r)\<rparr>"
    using assms clear_slots_prefix [of 60 "minute_slots r" "default_val agg"]
    by (simp add: minute_add_sample_def Let_def bind_def)
next
  show "0 \<le> in_time \<longrightarrow>
          get_vector_value
            (replicate 60 (default_val agg) @ drop 60 (minute_slots r)) (in_time smod 60)
            = Inr (default_val agg)"
  proof
    assume nonneg: "0 \<le> in_time"
    define k where "k = nat (in_time mod 60)"
    have "in_time smod 60 = in_time mod 60"
      using nonneg by (simp add: signed_modulo_int_def sgn_if)
    moreover have "0 \<le> in_time mod 60" and "in_time mod 60 < 60"
      by simp_all
    ultimately have pos: "in_time smod 60 = int k" and k: "k < 60"
      by (simp_all add: k_def)
    have "(replicate 60 (default_val agg) @ drop 60 (minute_slots r)) ! k = default_val agg"
      using k by (simp add: nth_append)
    then show "get_vector_value
            (replicate 60 (default_val agg) @ drop 60 (minute_slots r)) (in_time smod 60)
            = Inr (default_val agg)"
      using k by (simp add: get_vector_value_def pos)
  qed
qed

theorem minute_add_sample_gap_wipes_witness:
  "60 \<le> length (minute_slots new_kis_tracked_minute_rrd)
   \<and> minute_last_time new_kis_tracked_minute_rrd \<le> 100
   \<and> 100 - minute_last_time new_kis_tracked_minute_rrd > 60
   \<and> minute_add_sample kis_tracked_rrd_peak_signal_aggregator (- 40) 100
        new_kis_tracked_minute_rrd
       = Inr \<lparr>minute_last_time = 100, minute_slots = replicate 60 0\<rparr>
   \<and> (0 :: int) \<le> 100
   \<and> get_vector_value (replicate 60 0) (100 smod 60) = Inr 0"
  using minute_add_sample_gap_wipes [where r = new_kis_tracked_minute_rrd
      and in_time = 100 and agg = kis_tracked_rrd_peak_signal_aggregator and v = "- 40"]
  by (simp add: new_kis_tracked_minute_rrd_def default_val_def)

section \<open>Properties of the signal record\<close>

lemma signal_rrd_add_sample_returns:
  assumes "case signal_min_rrd s of None \<Rightarrow> True
           | Some r \<Rightarrow> 60 \<le> length (minute_slots r) \<and> 0 \<le> minute_last_time r"
  shows "\<exists>r'. signal_rrd_add_sample v now s = Inr (s\<lparr>signal_min_rrd := Some r'\<rparr>)"
proof -
  let ?r = "case signal_min_rrd s of None \<Rightarrow> new_kis_tracked_minute_rrd | Some r \<Rightarrow> r"
  have "60 \<le> length (minute_slots ?r) \<and> 0 \<le> minute_last_time ?r"
    using assms by (simp add: new_kis_tracked_minute_rrd_def split: option.splits)
  then obtain r' where
    "minute_add_sample kis_tracked_rrd_peak_signal_aggregator (scast v) now ?r = Inr r'"
    using minute_add_sample_returns by blast
  then show ?thesis
    by (auto simp add: signal_rrd_add_sample_def bind_def)
qed

lemma combo_signal_rssi_returns:
  assumes "case signal_min_rrd s of None \<Rightarrow> True
           | Some r \<Rightarrow> 60 \<le> length (minute_slots r) \<and> 0 \<le> minute_last_time r"
  shows "\<exists>r' p. combo_signal_rssi v g now s =
           Inr ((merge_signal_rssi v s)\<lparr>peak_loc := p, signal_min_rrd := Some r'\<rparr>)"
proof -
  let ?s3 = "(if max_signal_rssi s = 0 \<or> max_signal_rssi s <s v
              then set_peak_loc g (merge_signal_rssi v s) else merge_signal_rssi v s)"
  have eq: "combo_signal_rssi v g now s = signal_rrd_add_sample v now ?s3"
    by (simp add: combo_signal_rssi_def merge_signal_rssi_def Let_def set_peak_loc_def
        split: option.splits)
  have rrd: "signal_min_rrd ?s3 = signal_min_rrd s"
    by (simp add: merge_signal_rssi_def Let_def set_peak_loc_def split: option.splits)
  obtain r' where r': "signal_rrd_add_sample v now ?s3 = Inr (?s3\<lparr>signal_min_rrd := Some r'\<rparr>)"
    using signal_rrd_add_sample_returns [of ?s3 v now] assms unfolding rrd by blast
  have "?s3\<lparr>signal_min_rrd := Some r'\<rparr>
        = (merge_signal_rssi v s)\<lparr>peak_loc := peak_loc ?s3, signal_min_rrd := Some r'\<rparr>"
    by (simp add: set_peak_loc_def split: option.splits)
  with eq r' show ?thesis by metis
qed


text \<open>
  C10. Both merge operators of the signal record, on an RSSI-type sample whose signal
  value is not zero and is below the stored minimum RSSI (or the stored minimum RSSI is
  zero): the value is written into \<open>min_signal_dbm\<close> and \<open>min_signal_rssi\<close> keeps its
  old value. The last and maximum RSSI signal, the RSSI noise fields and the carrier and
  encoding sets are updated in their own fields, and the other dBm fields are unchanged.
  The operator on a \<open>Packinfo_Sig_Combo\<close> also feeds the minute RRD, which has its 60
  slots and a last update time that is not negative.
\<close>

theorem rssi_minimum_written_to_dbm_field:
  fixes s :: "('r::ord, 'g) kis_tracked_signal_data"
    and l :: "'r kis_layer1_packinfo"
    and c :: "('r, 'g) Packinfo_Sig_Combo"
    and now :: time_t
  assumes rssi: "signal_type l = kis_l1_signal_type_rssi"
    and nz: "signal_rssi l \<noteq> 0"
    and lower: "min_signal_rssi s = 0 \<or> signal_rssi l <s min_signal_rssi s"
    and combo: "lay1 c = Some l"
    and rrd: "case signal_min_rrd s of None \<Rightarrow> True
              | Some r \<Rightarrow> 60 \<le> length (minute_slots r) \<and> 0 \<le> minute_last_time r"
  defines "merged \<equiv> \<lambda>s'.
      min_signal_dbm s' = signal_rssi l
    \<and> min_signal_rssi s' = min_signal_rssi s
    \<and> last_signal_rssi s' = signal_rssi l
    \<and> max_signal_rssi s' =
        (if max_signal_rssi s = 0 \<or> max_signal_rssi s <s signal_rssi l
         then signal_rssi l else max_signal_rssi s)
    \<and> last_noise_rssi s' = (if noise_rssi l \<noteq> 0 then noise_rssi l else last_noise_rssi s)
    \<and> min_noise_rssi s' =
        (if noise_rssi l \<noteq> 0 \<and> (min_noise_rssi s = 0 \<or> noise_rssi l <s min_noise_rssi s)
         then noise_rssi l else min_noise_rssi s)
    \<and> max_noise_rssi s' =
        (if noise_rssi l \<noteq> 0 \<and> (max_noise_rssi s = 0 \<or> max_noise_rssi s <s noise_rssi l)
         then noise_rssi l else max_noise_rssi s)
    \<and> last_signal_dbm s' = last_signal_dbm s
    \<and> max_signal_dbm s' = max_signal_dbm s
    \<and> last_noise_dbm s' = last_noise_dbm s
    \<and> min_noise_dbm s' = min_noise_dbm s
    \<and> max_noise_dbm s' = max_noise_dbm s
    \<and> carrierset s' = or (carrierset s) (carrier l)
    \<and> encodingset s' = or (encodingset s) (encoding l)"
  shows "merged (signal_data_add_packinfo s l)
       \<and> (\<exists>s'. signal_data_add_combo s c now = Inr s' \<and> merged s')"
proof
  show "merged (signal_data_add_packinfo s l)"
    using rssi nz lower
    by (simp add: merged_def signal_data_add_packinfo_def merge_signal_rssi_def
        merge_noise_rssi_def merge_sets_and_rate_def Let_def)
next
  obtain r' p where ret: "combo_signal_rssi (signal_rssi l) (gps c) now s =
      Inr ((merge_signal_rssi (signal_rssi l) s)\<lparr>peak_loc := p, signal_min_rrd := Some r'\<rparr>)"
    using combo_signal_rssi_returns [OF rrd] by blast
  let ?s1 = "(merge_signal_rssi (signal_rssi l) s)\<lparr>peak_loc := p, signal_min_rrd := Some r'\<rparr>"
  let ?s2 = "if noise_rssi l \<noteq> 0 then merge_noise_rssi (noise_rssi l) ?s1 else ?s1"
  have "signal_data_add_combo s c now = Inr (merge_sets_and_rate l ?s2)"
    using rssi nz combo ret by (simp add: signal_data_add_combo_def bind_def)
  moreover have "merged (merge_sets_and_rate l ?s2)"
    using lower
    by (simp add: merged_def merge_signal_rssi_def merge_noise_rssi_def
        merge_sets_and_rate_def Let_def)
  ultimately show "\<exists>s'. signal_data_add_combo s c now = Inr s' \<and> merged s'"
    by blast
qed


theorem rssi_minimum_written_to_dbm_field_witness:
  "signal_type \<lparr>signal_type = kis_l1_signal_type_rssi, signal_dbm = 0, noise_dbm = 0,
       signal_rssi = 10, noise_rssi = 0, carrier = 0, encoding = 0, datarate = 0 :: nat\<rparr>
     = kis_l1_signal_type_rssi
   \<and> (10 :: int32_t) \<noteq> 0
   \<and> (10 :: int32_t) <s
       min_signal_rssi
         ((new_kis_tracked_signal_data :: (nat, unit) kis_tracked_signal_data)
            \<lparr>min_signal_rssi := 20\<rparr>)
   \<and> min_signal_dbm
        (signal_data_add_packinfo
           ((new_kis_tracked_signal_data :: (nat, unit) kis_tracked_signal_data)
              \<lparr>min_signal_rssi := 20\<rparr>)
           \<lparr>signal_type = kis_l1_signal_type_rssi, signal_dbm = 0, noise_dbm = 0,
             signal_rssi = 10, noise_rssi = 0, carrier = 0, encoding = 0, datarate = 0\<rparr>)
       = 10
   \<and> min_signal_rssi
        (signal_data_add_packinfo
           ((new_kis_tracked_signal_data :: (nat, unit) kis_tracked_signal_data)
              \<lparr>min_signal_rssi := 20\<rparr>)
           \<lparr>signal_type = kis_l1_signal_type_rssi, signal_dbm = 0, noise_dbm = 0,
             signal_rssi = 10, noise_rssi = 0, carrier = 0, encoding = 0, datarate = 0\<rparr>)
       = 20
   \<and> (\<exists>s'. signal_data_add_combo
          ((new_kis_tracked_signal_data :: (nat, unit) kis_tracked_signal_data)
             \<lparr>min_signal_rssi := 20\<rparr>)
          \<lparr>lay1 = Some \<lparr>signal_type = kis_l1_signal_type_rssi, signal_dbm = 0,
             noise_dbm = 0, signal_rssi = 10, noise_rssi = 0, carrier = 0, encoding = 0,
             datarate = 0\<rparr>, gps = None\<rparr> 5 = Inr s'
        \<and> min_signal_dbm s' = 10 \<and> min_signal_rssi s' = 20)"
  using rssi_minimum_written_to_dbm_field
    [where s = "(new_kis_tracked_signal_data :: (nat, unit) kis_tracked_signal_data)
                  \<lparr>min_signal_rssi := 20\<rparr>"
      and l = "\<lparr>signal_type = kis_l1_signal_type_rssi, signal_dbm = 0, noise_dbm = 0,
                signal_rssi = 10, noise_rssi = 0, carrier = 0, encoding = 0, datarate = 0\<rparr>"
      and c = "\<lparr>lay1 = Some \<lparr>signal_type = kis_l1_signal_type_rssi, signal_dbm = 0,
                noise_dbm = 0, signal_rssi = 10, noise_rssi = 0, carrier = 0, encoding = 0,
                datarate = 0\<rparr>, gps = None\<rparr>"
      and now = 5]
  by (auto simp add: new_kis_tracked_signal_data_def word_sless_alt)

section \<open>Properties of the container operations\<close>

text \<open>
  C3. \<open>del_macmap\<close> on an element of the MAC-keyed map kind. A MAC-keyed map that holds
  one child under key 7 (put there by \<open>add_macmap\<close>) rejects \<open>del_macmap(7)\<close> with
  TypeMismatch, while an element of the id-keyed map kind passes the test.
\<close>

theorem del_macmap_rejects_macmap:
  "add_macmap 7 1 0
     [0 \<mapsto> new_TrackerElement TrackerMacMap, 1 \<mapsto> new_TrackerElement TrackerInt64]
     = Some (Inr [0 \<mapsto> (new_TrackerElement TrackerMacMap)\<lparr>submacmap_value := [(7, 1)]\<rparr>,
                  1 \<mapsto> (new_TrackerElement TrackerInt64)\<lparr>reference_count := 1\<rparr>])
   \<and> del_macmap 7 0
       [0 \<mapsto> (new_TrackerElement TrackerMacMap)\<lparr>submacmap_value := [(7, 1)]\<rparr>,
        1 \<mapsto> (new_TrackerElement TrackerInt64)\<lparr>reference_count := 1\<rparr>]
     = Some (Inl TypeMismatch)
   \<and> del_macmap 7 0 [0 \<mapsto> new_TrackerElement TrackerMap]
     = Some (Inr [0 \<mapsto> new_TrackerElement TrackerMap])"
  by (simp add: add_macmap_def del_macmap_def new_TrackerElement_def
      except_type_mismatch_def then_do_def link_def fun_upd_twist)

text \<open>
  C4. \<open>del_intmap\<close> on an int-keyed map that contains the key. After \<open>add_intmap(5, child)\<close>
  and \<open>del_intmap(5)\<close> the child has been unlinked once, which destroys it, but the
  int-keyed map still holds the entry for key 5 and its size is still 1.
\<close>

theorem del_intmap_keeps_entry:
  "add_intmap 5 1 0
     [0 \<mapsto> new_TrackerElement TrackerIntMap, 1 \<mapsto> new_TrackerElement TrackerInt64]
     = Some (Inr [0 \<mapsto> (new_TrackerElement TrackerIntMap)\<lparr>subintmap_value := [(5, 1)]\<rparr>,
                  1 \<mapsto> (new_TrackerElement TrackerInt64)\<lparr>reference_count := 1\<rparr>])
   \<and> del_intmap 5 0
       [0 \<mapsto> (new_TrackerElement TrackerIntMap)\<lparr>subintmap_value := [(5, 1)]\<rparr>,
        1 \<mapsto> (new_TrackerElement TrackerInt64)\<lparr>reference_count := 1\<rparr>]
     = Some (Inr [0 \<mapsto> (new_TrackerElement TrackerIntMap)\<lparr>subintmap_value := [(5, 1)]\<rparr>])
   \<and> map_of (subintmap_value
        ((new_TrackerElement TrackerIntMap)\<lparr>subintmap_value := [(5, 1)]\<rparr>)) 5 = Some 1
   \<and> size_of ((new_TrackerElement TrackerIntMap)\<lparr>subintmap_value := [(5, 1)]\<rparr>) = Inr 1"
  by (simp add: add_intmap_def del_intmap_def new_TrackerElement_def
      except_type_mismatch_def then_do_def link_def unlink_def unlink_all.simps
      owned_children_def size_of_def AList.delete_eq fun_upd_twist)

text \<open>
  C5. \<open>del_vector\<close> on a sequence of one element: position 2 is refused with the fatal
  error, position 0 removes and unlinks the element, but position 1, equal to the number
  of elements, passes the range test and the element past the end is read.
\<close>

theorem del_vector_index_equal_size:
  "del_vector 1 0
     [0 \<mapsto> (new_TrackerElement TrackerVector)\<lparr>subvector_value := [1]\<rparr>,
      1 \<mapsto> (new_TrackerElement TrackerInt64)\<lparr>reference_count := 1\<rparr>]
     = Some (Inl OutOfBoundsAccess)
   \<and> del_vector 2 0
     [0 \<mapsto> (new_TrackerElement TrackerVector)\<lparr>subvector_value := [1]\<rparr>,
      1 \<mapsto> (new_TrackerElement TrackerInt64)\<lparr>reference_count := 1\<rparr>]
     = Some (Inl OwnershipViolation)
   \<and> del_vector 0 0
     [0 \<mapsto> (new_TrackerElement TrackerVector)\<lparr>subvector_value := [1]\<rparr>,
      1 \<mapsto> (new_TrackerElement TrackerInt64)\<lparr>reference_count := 1\<rparr>]
     = Some (Inr [0 \<mapsto> new_TrackerElement TrackerVector])"
  by (simp add: del_vector_def new_TrackerElement_def except_type_mismatch_def
      unlink_def unlink_all.simps owned_children_def fun_upd_twist)

end
